theory Spec2Isabelle
  imports Main "HOL-Library.Word"
begin

section \<open>Go library functions the verifier calls\<close>

text \<open>
  Go strings are byte sequences; \<^typ>\<open>string\<close> is a list of 8-bit characters, so
  \<open>length\<close> is Go's \<open>len\<close> and \<open>s ! i\<close> is \<open>s[i]\<close>. The functions of package
  \<open>strings\<close>, \<open>strconv\<close> and \<open>fmt\<close> that the repository calls are written out here.
  \<open>ToLower\<close> and \<open>ToUpper\<close> map the ASCII letters and leave every other byte alone: they
  agree with Go on ASCII input (Go also maps letters beyond ASCII).
\<close>

definition lower_byte :: "char \<Rightarrow> char" where
  "lower_byte c = (let n = (of_char c :: nat) in if 65 \<le> n \<and> n \<le> 90 then char_of (n + 32) else c)"

definition upper_byte :: "char \<Rightarrow> char" where
  "upper_byte c = (let n = (of_char c :: nat) in if 97 \<le> n \<and> n \<le> 122 then char_of (n - 32) else c)"

definition ToLower :: "string \<Rightarrow> string" where
  "ToLower s = map lower_byte s"

definition ToUpper :: "string \<Rightarrow> string" where
  "ToUpper s = map upper_byte s"

text \<open>
  \<open>unicode.IsSpace\<close> on the UTF-8 encoding of one rune: tab to carriage return, space,
  U+0085, U+00A0, U+1680, U+2000 to U+200A, U+2028, U+2029, U+202F, U+205F, U+3000.
\<close>

definition is_space_rune :: "string \<Rightarrow> bool" where
  "is_space_rune bs = (case map (of_char :: char \<Rightarrow> nat) bs of
       [a] \<Rightarrow> a = 32 \<or> (9 \<le> a \<and> a \<le> 13)
     | [a, b] \<Rightarrow> a = 0xC2 \<and> (b = 0x85 \<or> b = 0xA0)
     | [a, b, c] \<Rightarrow>
         (a = 0xE1 \<and> b = 0x9A \<and> c = 0x80)
         \<or> (a = 0xE2 \<and> b = 0x80 \<and> ((0x80 \<le> c \<and> c \<le> 0x8A) \<or> c = 0xA8 \<or> c = 0xA9 \<or> c = 0xAF))
         \<or> (a = 0xE2 \<and> b = 0x81 \<and> c = 0x9F)
         \<or> (a = 0xE3 \<and> b = 0x80 \<and> c = 0x80)
     | _ \<Rightarrow> False)"

function TrimLeft :: "string \<Rightarrow> string" where
  "TrimLeft s =
     (if 1 \<le> length s \<and> is_space_rune (take 1 s) then TrimLeft (drop 1 s)
      else if 2 \<le> length s \<and> is_space_rune (take 2 s) then TrimLeft (drop 2 s)
      else if 3 \<le> length s \<and> is_space_rune (take 3 s) then TrimLeft (drop 3 s)
      else s)"
  by pat_completeness auto
termination
  by (relation "measure length") auto

function TrimRight :: "string \<Rightarrow> string" where
  "TrimRight s =
     (let n = length s in
      if 1 \<le> n \<and> is_space_rune (drop (n - 1) s) then TrimRight (take (n - 1) s)
      else if 2 \<le> n \<and> is_space_rune (drop (n - 2) s) then TrimRight (take (n - 2) s)
      else if 3 \<le> n \<and> is_space_rune (drop (n - 3) s) then TrimRight (take (n - 3) s)
      else s)"
  by pat_completeness auto
termination
  by (relation "measure length") auto

declare TrimLeft.simps [simp del] TrimRight.simps [simp del]

definition TrimSpace :: "string \<Rightarrow> string" where
  "TrimSpace s = TrimRight (TrimLeft s)"

definition HasPrefix :: "string \<Rightarrow> string \<Rightarrow> bool" where
  "HasPrefix s p = (length p \<le> length s \<and> take (length p) s = p)"

definition HasSuffix :: "string \<Rightarrow> string \<Rightarrow> bool" where
  "HasSuffix s p = (length p \<le> length s \<and> drop (length s - length p) s = p)"

definition TrimSuffix :: "string \<Rightarrow> string \<Rightarrow> string" where
  "TrimSuffix s p = (if HasSuffix s p then take (length s - length p) s else s)"

definition TrimPrefix :: "string \<Rightarrow> string \<Rightarrow> string" where
  "TrimPrefix s p = (if HasPrefix s p then drop (length p) s else s)"

fun Contains :: "string \<Rightarrow> string \<Rightarrow> bool" where
  "Contains [] sub = (sub = [])"
| "Contains (c # s) sub = (HasPrefix (c # s) sub \<or> Contains s sub)"

text \<open>
  \<open>strings.Count\<close>, \<open>strings.Split\<close> and \<open>strings.SplitN(s, sep, 2)\<close> for a separator of
  one byte, which is every use in the repository.
\<close>

definition Count :: "string \<Rightarrow> char \<Rightarrow> nat" where
  "Count s c = length (filter (\<lambda>x. x = c) s)"

fun Split :: "string \<Rightarrow> char \<Rightarrow> string list" where
  "Split [] c = [[]]"
| "Split (x # xs) c =
     (if x = c then [] # Split xs c
      else (case Split xs c of h # t \<Rightarrow> (x # h) # t | [] \<Rightarrow> [[x]]))"

definition SplitN2 :: "string \<Rightarrow> char \<Rightarrow> string list" where
  "SplitN2 s c =
     (if c \<in> set s then [takeWhile (\<lambda>x. x \<noteq> c) s, drop 1 (dropWhile (\<lambda>x. x \<noteq> c) s)]
      else [s])"

text \<open>
  \<open>strconv.Atoi\<close>: an optional sign, then at least one decimal digit and nothing else; a
  value outside the 64-bit range is an error.
\<close>

fun digits_value :: "string \<Rightarrow> nat \<Rightarrow> nat option" where
  "digits_value [] n = Some n"
| "digits_value (ch # s) n =
     (let d = (of_char ch :: nat) in
      if 48 \<le> d \<and> d \<le> 57 then digits_value s (n * 10 + (d - 48)) else None)"

definition Atoi :: "string \<Rightarrow> int option" where
  "Atoi s =
     (case s of
        [] \<Rightarrow> None
      | c # rest \<Rightarrow>
          (let body = (if c = CHR ''-'' \<or> c = CHR ''+'' then rest else s) in
           if body = [] then None
           else (case digits_value body 0 of
                   None \<Rightarrow> None
                 | Some n \<Rightarrow>
                     (let v = (if c = CHR ''-'' then - int n else int n) in
                      if - (2 ^ 63) \<le> v \<and> v < 2 ^ 63 then Some v else None))))"

text \<open>The verb \<open>%d\<close> of \<open>fmt\<close> on an \<open>int\<close>.\<close>

fun nat_digits :: "nat \<Rightarrow> string" where
  "nat_digits n =
     (if n < 10 then [char_of (48 + n)]
      else nat_digits (n div 10) @ [char_of (48 + n mod 10)])"

declare nat_digits.simps [simp del]

definition itoa :: "int \<Rightarrow> string" where
  "itoa i = (if i < 0 then CHR ''-'' # nat_digits (nat (- i)) else nat_digits (nat i))"

section \<open>The verdict (result.go)\<close>

datatype Status = StatusValid | StatusInvalid | StatusUnknown | StatusRisky | StatusError

text \<open>
  The struct \<open>Result\<close>. The two clock fields \<open>VerifiedAt\<close> and \<open>LatencyMs\<close> are left out:
  no function below reads them. \<open>Domain\<close> is spelt \<open>Domain_part\<close> because HOL has a
  constant of that name.
\<close>

record Result =
  Email :: string
  Valid :: bool
  Status :: Status
  StatusCode :: int
  Reason :: string
  Disposable :: bool
  RoleAccount :: bool
  FreeProvider :: bool
  CatchAll :: bool
  CatchAllChecked :: bool
  MXRecords :: "string list"
  MXHost :: string
  SMTPResponse :: string
  ConfidenceScore :: int
  SyntaxValid :: bool
  LocalPart :: string
  Domain_part :: string
  HasMX :: bool
  SMTPSuccess :: bool
  TLSUsed :: bool
  Error :: string

definition NewResult :: "string \<Rightarrow> Result" where
  "NewResult email =
     \<lparr> Email = email, Valid = False, Status = StatusUnknown, StatusCode = 0, Reason = [],
       Disposable = False, RoleAccount = False, FreeProvider = False, CatchAll = False,
       CatchAllChecked = False, MXRecords = [], MXHost = [], SMTPResponse = [],
       ConfidenceScore = 0, SyntaxValid = False, LocalPart = [], Domain_part = [],
       HasMX = False, SMTPSuccess = False, TLSUsed = False, Error = [] \<rparr>"

definition calculateConfidence :: "Result \<Rightarrow> int" where
  "calculateConfidence r =
     (let score = 0;
          score = (if SyntaxValid r then score + 10 else score);
          score = (if HasMX r then score + 15 else score);
          score = (case Status r of
                     StatusValid \<Rightarrow> (let score = score + 60 in
                                      if StatusCode r = 250 then score + 15 else score)
                   | StatusInvalid \<Rightarrow> 0
                   | StatusRisky \<Rightarrow> score + 30
                   | StatusUnknown \<Rightarrow> score + 20
                   | StatusError \<Rightarrow> score);
          score = (if Disposable r then score - 20 else score);
          score = (if CatchAll r then score - 25 else score);
          score = (if RoleAccount r then score - 5 else score);
          score = (if score < 0 then 0 else score);
          score = (if score > 100 then 100 else score)
      in score)"

definition SetValid :: "int \<Rightarrow> string \<Rightarrow> Result \<Rightarrow> Result" where
  "SetValid code response r =
     (let r = r\<lparr>Valid := True, Status := StatusValid, StatusCode := code,
                 SMTPResponse := response, SMTPSuccess := True\<rparr>
      in r\<lparr>ConfidenceScore := calculateConfidence r\<rparr>)"

definition SetInvalid :: "int \<Rightarrow> string \<Rightarrow> string \<Rightarrow> Result \<Rightarrow> Result" where
  "SetInvalid code response reason r =
     (let r = r\<lparr>Valid := False, Status := StatusInvalid, StatusCode := code,
                 SMTPResponse := response, Reason := reason\<rparr>
      in r\<lparr>ConfidenceScore := calculateConfidence r\<rparr>)"

definition SetUnknown :: "string \<Rightarrow> Result \<Rightarrow> Result" where
  "SetUnknown reason r =
     (let r = r\<lparr>Valid := False, Status := StatusUnknown, Reason := reason\<rparr>
      in r\<lparr>ConfidenceScore := calculateConfidence r\<rparr>)"

definition SetRisky :: "string \<Rightarrow> Result \<Rightarrow> Result" where
  "SetRisky reason r =
     (let r = r\<lparr>Valid := False, Status := StatusRisky, Reason := reason\<rparr>
      in r\<lparr>ConfidenceScore := calculateConfidence r\<rparr>)"

section \<open>The SMTP session (smtp.go)\<close>

record SMTPConfig =
  Host :: string
  Port :: int
  Timeout :: int
  FromAddress :: string
  HELODomain :: string
  ForceTLS :: bool
  SkipTLSVerify :: bool

text \<open>
  The errors the session builds with \<open>fmt.Errorf\<close>, one constructor for each format string,
  and the text \<open>err.Error()\<close> gives. The argument of a constructor that wraps another error
  is that error (or its text when it comes from the operating system).
\<close>

datatype error =
    ConnectionFailed string
  | BannerReadFailed error
  | UnexpectedBanner int string
  | SendFailed string
  | ReadFailed string
  | HELOFailed int string
  | STARTTLSFailed int string
  | TLSHandshakeFailed string
  | MailFromRejected int string

fun error_string :: "error \<Rightarrow> string" where
  "error_string (ConnectionFailed m) = ''connection failed: '' @ m"
| "error_string (BannerReadFailed e) = ''failed to read banner: '' @ error_string e"
| "error_string (UnexpectedBanner c b) = ''unexpected banner code '' @ itoa c @ '': '' @ b"
| "error_string (SendFailed m) = ''failed to send command: '' @ m"
| "error_string (ReadFailed m) = ''failed to read response: '' @ m"
| "error_string (HELOFailed c r) = ''HELO failed with code '' @ itoa c @ '': '' @ r"
| "error_string (STARTTLSFailed c r) = ''STARTTLS failed with code '' @ itoa c @ '': '' @ r"
| "error_string (TLSHandshakeFailed m) = ''TLS handshake failed: '' @ m"
| "error_string (MailFromRejected c r) = ''MAIL FROM rejected with code '' @ itoa c @ '': '' @ r"

definition SetError :: "error \<Rightarrow> Result \<Rightarrow> Result" where
  "SetError err r =
     r\<lparr>Valid := False, Status := StatusError, Error := error_string err,
       Reason := error_string err, ConfidenceScore := 0\<rparr>"

text \<open>
  The other end of the connection, as one session meets it: the outcome of the dial, what
  each successive \<open>ReadString('\n')\<close> returns (a line, or an error such as a missed deadline;
  when the list is used up the read fails with end of file), the outcome of each successive
  write and TLS handshake (\<open>None\<close> is success, and so is a used-up list), and the values
  \<open>rand.Intn\<close> returns. \<open>transcript\<close> records each command that was written together with
  the reply that was read for it (\<open>None\<close> when the read failed), oldest first, and \<open>closed\<close>
  that \<open>conn.Close()\<close> was called. Every run of the Go code is the run of the model on the
  peer that lists what its operations returned.
\<close>

datatype read_event = Line string | ReadErr string

record peer =
  dial :: "string option"
  incoming :: "read_event list"
  write_errors :: "string option list"
  handshakes :: "string option list"
  draws :: "nat list"
  transcript :: "(string \<times> string option) list"
  closed :: bool

record SMTPConnection =
  conn :: bool
  config :: SMTPConfig
  useTLS :: bool
  banner :: string
  features :: "string set"
  peer :: peer

definition NewSMTPConnection :: "SMTPConfig \<Rightarrow> peer \<Rightarrow> SMTPConnection" where
  "NewSMTPConnection cfg p =
     \<lparr> conn = False, config = cfg, useTLS = False, banner = [], features = {}, peer = p \<rparr>"

definition parseCode :: "string \<Rightarrow> int" where
  "parseCode response =
     (if length response < 3 then 0
      else (case Atoi (take 3 response) of None \<Rightarrow> 0 | Some code \<Rightarrow> code))"

text \<open>The loop of \<open>readResponse\<close>: lines are appended until one has a space as fourth byte.\<close>

fun read_lines :: "string \<Rightarrow> read_event list \<Rightarrow> (string \<times> string option) \<times> read_event list" where
  "read_lines acc [] = ((acc, Some ''EOF''), [])"
| "read_lines acc (ReadErr m # rest) = ((acc, Some m), rest)"
| "read_lines acc (Line l # rest) =
     (let acc = acc @ l in
      if 4 \<le> length l \<and> l ! 3 = CHR '' '' then ((acc, None), rest)
      else read_lines acc rest)"

definition readResponse :: "SMTPConnection \<Rightarrow> (string \<times> error option) \<times> SMTPConnection" where
  "readResponse s =
     (case read_lines [] (incoming (peer s)) of
        ((response, failure), rest) \<Rightarrow>
          ((response, map_option ReadFailed failure), s\<lparr>peer := (peer s)\<lparr>incoming := rest\<rparr>\<rparr>))"

definition record_exchange :: "string \<Rightarrow> string option \<Rightarrow> SMTPConnection \<Rightarrow> SMTPConnection" where
  "record_exchange cmd reply s =
     s\<lparr>peer := (peer s)\<lparr>transcript := transcript (peer s) @ [(cmd, reply)]\<rparr>\<rparr>"

definition sendCommand :: "string \<Rightarrow> SMTPConnection \<Rightarrow> (string \<times> error option) \<times> SMTPConnection" where
  "sendCommand cmd s =
     (case write_errors (peer s) of
        Some m # ws \<Rightarrow> (([], Some (SendFailed m)), s\<lparr>peer := (peer s)\<lparr>write_errors := ws\<rparr>\<rparr>)
      | _ \<Rightarrow>
          (let s = s\<lparr>peer := (peer s)\<lparr>write_errors := tl (write_errors (peer s))\<rparr>\<rparr> in
           case readResponse s of
             ((response, Some err), s) \<Rightarrow> (([], Some err), record_exchange cmd None s)
           | ((response, None), s) \<Rightarrow> ((response, None), record_exchange cmd (Some response) s)))"

definition Connect :: "SMTPConnection \<Rightarrow> error option \<times> SMTPConnection" where
  "Connect s =
     (case dial (peer s) of
        Some m \<Rightarrow> (Some (ConnectionFailed m), s)
      | None \<Rightarrow>
          (let s = s\<lparr>conn := True\<rparr> in
           case readResponse s of
             ((b, Some err), s) \<Rightarrow> (Some (BannerReadFailed err), s)
           | ((b, None), s) \<Rightarrow>
               (let s = s\<lparr>banner := b\<rparr>; code = parseCode b in
                if code \<noteq> 220 then (Some (UnexpectedBanner code b), s) else (None, s))))"

text \<open>One turn of the loop of \<open>EHLO\<close> over the lines of the reply.\<close>

definition ehlo_feature :: "string \<Rightarrow> string set \<Rightarrow> string set" where
  "ehlo_feature line fs =
     (let line = TrimSpace line in
      if length line < 4 then fs
      else (let feature = ToUpper (TrimSpace (drop 4 line));
                feature = (if HasPrefix feature ''250'' then TrimSpace (drop 3 feature) else feature);
                feature = (case Split feature CHR '' '' of [] \<Rightarrow> [] | w # _ \<Rightarrow> w)
            in if feature \<noteq> [] then insert feature fs else fs))"

definition EHLO :: "SMTPConnection \<Rightarrow> error option \<times> SMTPConnection" where
  "EHLO s =
     (case sendCommand (''EHLO '' @ HELODomain (config s)) s of
        ((response, Some err), s) \<Rightarrow> (Some err, s)
      | ((response, None), s) \<Rightarrow>
          (if parseCode response \<noteq> 250 then
             (case sendCommand (''HELO '' @ HELODomain (config s)) s of
                ((response, Some err), s) \<Rightarrow> (Some err, s)
              | ((response, None), s) \<Rightarrow>
                  (let code = parseCode response in
                   if code \<noteq> 250 then (Some (HELOFailed code response), s) else (None, s)))
           else (None, s\<lparr>features := fold ehlo_feature (Split response (CHR 0x0A)) (features s)\<rparr>)))"

definition StartTLS :: "SMTPConnection \<Rightarrow> error option \<times> SMTPConnection" where
  "StartTLS s =
     (if ''STARTTLS'' \<notin> features s then (None, s)
      else (case sendCommand ''STARTTLS'' s of
              ((response, Some err), s) \<Rightarrow> (Some err, s)
            | ((response, None), s) \<Rightarrow>
                (let code = parseCode response in
                 if code \<noteq> 220 then (Some (STARTTLSFailed code response), s)
                 else (case handshakes (peer s) of
                         Some m # hs \<Rightarrow>
                           (Some (TLSHandshakeFailed m), s\<lparr>peer := (peer s)\<lparr>handshakes := hs\<rparr>\<rparr>)
                       | _ \<Rightarrow>
                           EHLO (s\<lparr>peer := (peer s)\<lparr>handshakes := tl (handshakes (peer s))\<rparr>,
                                   useTLS := True, features := {}\<rparr>)))))"

definition MailFrom :: "string \<Rightarrow> SMTPConnection \<Rightarrow> error option \<times> SMTPConnection" where
  "MailFrom from s =
     (case sendCommand (''MAIL FROM:<'' @ from @ ''>'') s of
        ((response, Some err), s) \<Rightarrow> (Some err, s)
      | ((response, None), s) \<Rightarrow>
          (let code = parseCode response in
           if code = 530 \<and> Contains (ToUpper response) ''STARTTLS'' then
             (case StartTLS s of
                (Some err, s) \<Rightarrow> (Some err, s)
              | (None, s) \<Rightarrow>
                  (case sendCommand (''MAIL FROM:<'' @ from @ ''>'') s of
                     ((response, Some err), s) \<Rightarrow> (Some err, s)
                   | ((response, None), s) \<Rightarrow>
                       (let code = parseCode response in
                        if code \<noteq> 250 then (Some (MailFromRejected code response), s)
                        else (None, s))))
           else if code \<noteq> 250 then (Some (MailFromRejected code response), s)
           else (None, s)))"

definition RcptTo :: "string \<Rightarrow> SMTPConnection \<Rightarrow> (int \<times> string \<times> error option) \<times> SMTPConnection" where
  "RcptTo email s =
     (case sendCommand (''RCPT TO:<'' @ email @ ''>'') s of
        ((response, Some err), s) \<Rightarrow> ((0, [], Some err), s)
      | ((response, None), s) \<Rightarrow> ((parseCode response, TrimSpace response, None), s))"

definition Reset :: "SMTPConnection \<Rightarrow> error option \<times> SMTPConnection" where
  "Reset s = (case sendCommand ''RSET'' s of ((response, err), s) \<Rightarrow> (err, s))"

definition Close :: "SMTPConnection \<Rightarrow> SMTPConnection" where
  "Close s = (if conn s then s\<lparr>peer := (peer s)\<lparr>closed := True\<rparr>\<rparr> else s)"

definition Quit :: "SMTPConnection \<Rightarrow> SMTPConnection" where
  "Quit s = (if conn s then Close (snd (sendCommand ''QUIT'' s)) else s)"

definition SupportsTLS :: "SMTPConnection \<Rightarrow> bool" where
  "SupportsTLS s = (''STARTTLS'' \<in> features s)"

definition UsingTLS :: "SMTPConnection \<Rightarrow> bool" where
  "UsingTLS s = useTLS s"

text \<open>
  \<open>GenerateRandomEmail\<close> draws sixteen times from \<open>rand.Intn(36)\<close>; the draws come from the
  peer, and the function returns the draws that are left.
\<close>

definition charset :: string where
  "charset = ''abcdefghijklmnopqrstuvwxyz0123456789''"

definition GenerateRandomEmail :: "nat list \<Rightarrow> string \<Rightarrow> string \<times> nat list" where
  "GenerateRandomEmail ds domain =
     (''emailverify_test_''
        @ map (\<lambda>i. charset ! (i mod 36)) (take 16 (ds @ replicate 16 0))
        @ ''@'' @ domain,
      drop 16 ds)"

definition parseRejectionReason :: "string \<Rightarrow> string" where
  "parseRejectionReason response0 =
     (let response = ToLower response0 in
      if Contains response ''user unknown'' \<or> Contains response ''does not exist''
        then ''User does not exist''
      else if Contains response ''mailbox not found'' then ''Mailbox not found''
      else if Contains response ''recipient rejected'' then ''Recipient rejected''
      else if Contains response ''no such user'' then ''No such user''
      else if Contains response ''invalid recipient'' then ''Invalid recipient''
      else if Contains response ''disabled'' then ''Mailbox disabled''
      else if Contains response ''over quota'' then ''Mailbox over quota''
      else ''Recipient rejected'')"

text \<open>The \<open>switch\<close> of \<open>VerifyEmail\<close> on the code of the reply to \<open>RCPT TO\<close>.\<close>

definition interpret_code :: "int \<Rightarrow> string \<Rightarrow> Result \<Rightarrow> Result" where
  "interpret_code code response result =
     (if code = 250 \<or> code = 251 then SetValid code response result
      else if code = 252 then SetUnknown ''Server cannot verify but will attempt delivery'' result
      else if 550 \<le> code \<and> code \<le> 559
        then SetInvalid code response (parseRejectionReason response) result
      else if 450 \<le> code \<and> code \<le> 459 then SetUnknown (''Temporary failure: '' @ response) result
      else SetUnknown (''Unexpected code '' @ itoa code @ '': '' @ response) result)"

text \<open>
  The catch-all block that ends \<open>VerifyEmail\<close>. The random address is built on
  \<open>result.Domain\<close>, which \<open>VerifyEmail\<close> never fills in.
\<close>

definition catch_all_detection ::
  "SMTPConfig \<Rightarrow> bool \<Rightarrow> Result \<Rightarrow> SMTPConnection \<Rightarrow> Result \<times> SMTPConnection" where
  "catch_all_detection cfg checkCatchAll result smtp =
     (if checkCatchAll \<and> Status result = StatusValid then
        (case Reset smtp of
           (Some err, smtp) \<Rightarrow> (result, smtp)
         | (None, smtp) \<Rightarrow>
             (case MailFrom (FromAddress cfg) smtp of
                (Some err, smtp) \<Rightarrow> (result, smtp)
              | (None, smtp) \<Rightarrow>
                  (case GenerateRandomEmail (draws (peer smtp)) (Domain_part result) of
                     (randomEmail, ds) \<Rightarrow>
                       (case RcptTo randomEmail (smtp\<lparr>peer := (peer smtp)\<lparr>draws := ds\<rparr>\<rparr>) of
                          ((catchCode, response, err), smtp) \<Rightarrow>
                            (let result = result\<lparr>CatchAllChecked := True\<rparr> in
                             if catchCode = 250 \<or> catchCode = 251
                               then (SetRisky ''Domain accepts all emails (catch-all)''
                                       (result\<lparr>CatchAll := True\<rparr>), smtp)
                             else (result, smtp))))))
      else (result, smtp))"

definition VerifyEmail ::
  "SMTPConfig \<Rightarrow> string \<Rightarrow> bool \<Rightarrow> peer \<Rightarrow> (Result \<times> error option) \<times> SMTPConnection" where
  "VerifyEmail cfg email checkCatchAll p =
     (let result = NewResult email; smtp = NewSMTPConnection cfg p in
      case Connect smtp of
        (Some err, smtp) \<Rightarrow> ((SetError err result, Some err), Close smtp)
      | (None, smtp) \<Rightarrow>
      (case EHLO smtp of
        (Some err, smtp) \<Rightarrow> ((SetError err result, Some err), Close smtp)
      | (None, smtp) \<Rightarrow>
      (let smtp = (if SupportsTLS smtp then snd (StartTLS smtp) else smtp);
           result = result\<lparr>TLSUsed := UsingTLS smtp\<rparr> in
       case MailFrom (FromAddress cfg) smtp of
        (Some err, smtp) \<Rightarrow> ((SetError err result, Some err), Close smtp)
      | (None, smtp) \<Rightarrow>
      (case RcptTo email smtp of
        ((code, response, Some err), smtp) \<Rightarrow> ((SetError err result, Some err), Close smtp)
      | ((code, response, None), smtp) \<Rightarrow>
          (let result = result\<lparr>StatusCode := code, SMTPResponse := response\<rparr>;
               result = interpret_code code response result
           in case catch_all_detection cfg checkCatchAll result smtp of
                (result, smtp) \<Rightarrow> ((result, None), Close smtp))))))"

section \<open>Syntax validation (ValidateSyntax)\<close>

definition is_letter :: "char \<Rightarrow> bool" where
  "is_letter c = (let n = (of_char c :: nat) in (97 \<le> n \<and> n \<le> 122) \<or> (65 \<le> n \<and> n \<le> 90))"

definition is_alnum :: "char \<Rightarrow> bool" where
  "is_alnum c = (let n = (of_char c :: nat) in is_letter c \<or> (48 \<le> n \<and> n \<le> 57))"

text \<open>
  The pattern \<open>emailRegex\<close>: one or more characters of the local class, an at sign, then
  labels separated by dots, each an alphanumeric optionally followed by up to 61 characters
  that are alphanumeric or a hyphen and one more alphanumeric. The local class has no at
  sign, so the first at sign of the text is the one the pattern meets.
\<close>

definition local_char :: "char \<Rightarrow> bool" where
  "local_char c = (is_alnum c \<or> c \<in> set (''.!#$%&'' @ [CHR 0x27] @ ''*+/=?^_`{|}~-''))"

definition regex_label :: "string \<Rightarrow> bool" where
  "regex_label l =
     (1 \<le> length l \<and> length l \<le> 63 \<and> is_alnum (hd l) \<and> is_alnum (last l)
      \<and> list_all (\<lambda>c. is_alnum c \<or> c = CHR ''-'') l)"

definition emailRegex_MatchString :: "string \<Rightarrow> bool" where
  "emailRegex_MatchString s =
     (CHR ''@'' \<in> set s
      \<and> (let l = takeWhile (\<lambda>c. c \<noteq> CHR ''@'') s;
              d = drop 1 (dropWhile (\<lambda>c. c \<noteq> CHR ''@'') s)
          in l \<noteq> [] \<and> list_all local_char l \<and> list_all regex_label (Split d CHR ''.'')))"

text \<open>
  \<open>ValidateSyntax\<close> returns the local part, the domain and the flag. \<open>parts[1]\<close> exists
  because the text has exactly one at sign at that point; the last branch of the \<open>case\<close> is
  the index panic that cannot happen.
\<close>

definition ValidateSyntax :: "string \<Rightarrow> string \<times> string \<times> bool" where
  "ValidateSyntax email0 =
     (let email = ToLower (TrimSpace email0) in
      if email = [] then ([], [], False)
      else if length email > 254 then ([], [], False)
      else if Count email CHR ''@'' \<noteq> 1 then ([], [], False)
      else (case SplitN2 email CHR ''@'' of
              [localPart, domain] \<Rightarrow>
                (if localPart = [] then ([], [], False)
                 else if length localPart > 64 then ([], [], False)
                 else if HasPrefix localPart ''.'' \<or> HasSuffix localPart ''.'' then ([], [], False)
                 else if Contains localPart ''..'' then ([], [], False)
                 else if domain = [] then ([], [], False)
                 else if length domain > 253 then ([], [], False)
                 else if \<not> Contains domain ''.'' then ([], [], False)
                 else if HasPrefix domain ''.'' \<or> HasSuffix domain ''.''
                         \<or> HasPrefix domain ''-'' \<or> HasSuffix domain ''-'' then ([], [], False)
                 else if Contains domain ''..'' then ([], [], False)
                 else (let labels = Split domain CHR ''.'' in
                       if list_ex (\<lambda>label. length label = 0 \<or> length label > 63
                                      \<or> HasPrefix label ''-'' \<or> HasSuffix label ''-'') labels
                         then ([], [], False)
                       else (let tld = last labels in
                             if length tld < 2 then ([], [], False)
                             else if list_ex (\<lambda>c. \<not> is_letter c) tld then ([], [], False)
                             else if \<not> emailRegex_MatchString email then ([], [], False)
                             else (localPart, domain, True))))
            | _ \<Rightarrow> ([], [], False)))"

section \<open>Classification (package classifier)\<close>

definition rolePrefixes :: "string list" where
  "rolePrefixes = [
    ''admin'', ''administrator'', ''postmaster'', ''hostmaster'', ''webmaster'', ''root'',
     ''sysadmin'', ''support'', ''help'', ''helpdesk'', ''customerservice'', ''service'',
     ''tech'', ''technical'', ''info'', ''information'', ''contact'', ''contactus'', ''hello'',
     ''hi'', ''enquiry'', ''enquiries'', ''inquiry'', ''feedback'', ''sales'', ''marketing'',
     ''press'', ''media'', ''pr'', ''advertising'', ''ads'', ''partnerships'', ''partner'',
     ''business'', ''biz'', ''noreply'', ''no-reply'', ''donotreply'', ''do-not-reply'',
     ''mailer-daemon'', ''mailerdaemon'', ''daemon'', ''bounce'', ''bounces'', ''abuse'',
     ''security'', ''spam'', ''phishing'', ''fraud'', ''compliance'', ''legal'', ''privacy'',
     ''dmca'', ''billing'', ''invoice'', ''invoices'', ''accounting'', ''accounts'',
     ''finance'', ''payments'', ''payroll'', ''hr'', ''humanresources'', ''recruiting'',
     ''recruitment'', ''jobs'', ''careers'', ''career'', ''talent'', ''resume'', ''resumes'',
     ''cv'', ''team'', ''staff'', ''office'', ''reception'', ''all'', ''everyone'',
     ''company'', ''group'', ''dept'', ''department'', ''it'', ''dev'', ''developer'',
     ''developers'', ''development'', ''engineering'', ''devops'', ''ops'', ''operations'',
     ''network'', ''sysops'', ''noc'', ''orders'', ''order'', ''shop'', ''store'',
     ''checkout'', ''shipping'', ''delivery'', ''returns'', ''refund'', ''refunds'',
     ''fulfillment'', ''news'', ''newsletter'', ''newsletters'', ''updates'', ''subscribe'',
     ''subscriptions'', ''unsubscribe'', ''list'', ''lists'', ''announce'', ''announcements'',
     ''notifications'', ''alerts'', ''social'', ''community'', ''forum'', ''blog'', ''test'',
     ''testing'', ''demo'', ''example'', ''sample'', ''null'', ''void'', ''nobody'', ''www'',
     ''ftp'', ''mail'', ''email'']"

text \<open>
  Go walks the map \<open>rolePrefixes\<close> in an arbitrary order; the loop answers true as soon as
  one prefix fits, so the answer is that some prefix fits.
\<close>

definition IsRoleAccount :: "string \<Rightarrow> bool" where
  "IsRoleAccount localPart0 =
     (let localPart = ToLower (TrimSpace localPart0) in
      if localPart \<in> set rolePrefixes then True
      else list_ex (\<lambda>prefix.
             HasPrefix localPart prefix
             \<and> (let rest = TrimPrefix localPart prefix in
                 rest = []
                 \<or> (case rest of
                       [] \<Rightarrow> False
                     | firstChar # _ \<Rightarrow>
                         firstChar = CHR ''-'' \<or> firstChar = CHR ''_'' \<or> firstChar = CHR ''.''
                         \<or> (48 \<le> (of_char firstChar :: nat) \<and> (of_char firstChar :: nat) \<le> 57))))
           rolePrefixes)"

definition freeProviders :: "string list" where
  "freeProviders = [
    ''gmail.com'', ''googlemail.com'', ''outlook.com'', ''hotmail.com'', ''hotmail.co.uk'',
     ''hotmail.fr'', ''hotmail.de'', ''hotmail.it'', ''hotmail.es'', ''live.com'',
     ''live.co.uk'', ''live.fr'', ''live.de'', ''msn.com'', ''yahoo.com'', ''yahoo.co.uk'',
     ''yahoo.fr'', ''yahoo.de'', ''yahoo.it'', ''yahoo.es'', ''yahoo.co.in'', ''yahoo.ca'',
     ''yahoo.com.au'', ''yahoo.com.br'', ''yahoo.co.jp'', ''ymail.com'', ''rocketmail.com'',
     ''aol.com'', ''aol.co.uk'', ''aim.com'', ''verizon.net'', ''icloud.com'', ''me.com'',
     ''mac.com'', ''protonmail.com'', ''protonmail.ch'', ''proton.me'', ''pm.me'',
     ''zoho.com'', ''zohomail.com'', ''mail.com'', ''email.com'', ''usa.com'', ''post.com'',
     ''europe.com'', ''asia.com'', ''consultant.com'', ''engineer.com'', ''doctor.com'',
     ''lawyer.com'', ''activist.com'', ''accountant.com'', ''techie.com'', ''cheerful.com'',
     ''gmx.com'', ''gmx.net'', ''gmx.de'', ''gmx.at'', ''gmx.ch'', ''yandex.com'',
     ''yandex.ru'', ''yandex.ua'', ''ya.ru'', ''mail.ru'', ''inbox.ru'', ''bk.ru'',
     ''list.ru'', ''qq.com'', ''163.com'', ''126.com'', ''sina.com'', ''sina.cn'',
     ''sohu.com'', ''aliyun.com'', ''foxmail.com'', ''tutanota.com'', ''tutanota.de'',
     ''tutamail.com'', ''tuta.io'', ''fastmail.com'', ''fastmail.fm'', ''rediffmail.com'',
     ''rediff.com'', ''web.de'', ''freenet.de'', ''t-online.de'', ''libero.it'',
     ''virgilio.it'', ''free.fr'', ''orange.fr'', ''laposte.net'', ''sfr.fr'', ''wanadoo.fr'',
     ''wp.pl'', ''o2.pl'', ''interia.pl'', ''onet.pl'', ''seznam.cz'', ''centrum.cz'',
     ''rambler.ru'', ''ukr.net'', ''i.ua'', ''bigmir.net'', ''naver.com'', ''daum.net'',
     ''hanmail.net'', ''cox.net'', ''att.net'', ''sbcglobal.net'', ''bellsouth.net'',
     ''comcast.net'', ''charter.net'', ''earthlink.net'', ''juno.com'', ''optonline.net'',
     ''shaw.ca'', ''rogers.com'', ''sympatico.ca'', ''telus.net'', ''btinternet.com'',
     ''ntlworld.com'', ''sky.com'', ''blueyonder.co.uk'', ''talktalk.net'',
     ''virginmedia.com'', ''bigpond.com'', ''optusnet.com.au'', ''ozemail.com.au'',
     ''sify.com'', ''indiatimes.com'', ''sancharnet.in'', ''dataone.in'', ''lycos.com'',
     ''excite.com'', ''netscape.net'', ''inbox.com'', ''hushmail.com'', ''runbox.com'',
     ''lavabit.com'', ''mailfence.com'', ''disroot.org'', ''riseup.net'', ''autistici.org'',
     ''inventati.org'']"

definition IsFreeProvider :: "string \<Rightarrow> bool" where
  "IsFreeProvider domain = (ToLower (TrimSpace domain) \<in> set freeProviders)"

section \<open>Directory lookup (LookupMX)\<close>

text \<open>
  \<open>MX\<close> is \<open>net.MX\<close>, \<open>MXRecord\<close> and \<open>DNSResult\<close> are the structs of the repository (fields
  that share a name with a field of \<open>Result\<close> carry a suffix). An error of the resolver is a
  \<open>*net.DNSError\<close> with its \<open>IsNotFound\<close> flag and its text, or an error of another type.
  The resolver is the outside world: what \<open>LookupMX\<close> and \<open>LookupHost\<close> of \<open>net.Resolver\<close>
  answer for a name (a timeout is one of the errors).
\<close>

record MX =
  Host_mx :: string
  Pref :: "16 word"

record MXRecord =
  Host_rec :: string
  Priority :: "16 word"

datatype dns_error = DNSError bool string | OtherError string

fun dns_error_string :: "dns_error \<Rightarrow> string" where
  "dns_error_string (DNSError nf m) = m"
| "dns_error_string (OtherError m) = m"

datatype lookup_error = MXLookupFailed dns_error | NoMXRecords string

fun lookup_error_string :: "lookup_error \<Rightarrow> string" where
  "lookup_error_string (MXLookupFailed e) = ''MX lookup failed: '' @ dns_error_string e"
| "lookup_error_string (NoMXRecords d) = ''no MX records found for '' @ d"

record DNSResult =
  MXRecords_d :: "MXRecord list"
  HasMX_d :: bool
  SPFRecord :: string
  HasSPF :: bool
  DMARCRecord :: string
  HasDMARC :: bool
  Error_d :: "lookup_error option"

record resolver =
  resolve_mx :: "string \<Rightarrow> dns_error + MX list"
  resolve_host :: "string \<Rightarrow> dns_error + string list"

text \<open>
  \<open>sort.Slice\<close> is not stable; up to twelve elements Go sorts by insertion, which
  \<open>sort_key\<close> is, and beyond that Go fixes no order among records of equal priority.
\<close>

definition LookupMX :: "resolver \<Rightarrow> string \<Rightarrow> int \<Rightarrow> DNSResult \<times> lookup_error option" where
  "LookupMX res domain timeout =
     (let result = \<lparr> MXRecords_d = [], HasMX_d = False, SPFRecord = [], HasSPF = False,
                     DMARCRecord = [], HasDMARC = False, Error_d = None \<rparr>;
          failed = (\<lambda>err. (result\<lparr>Error_d := Some (MXLookupFailed err)\<rparr>, Some (MXLookupFailed err)))
      in case resolve_mx res domain of
           Inl err \<Rightarrow>
             (case err of
                DNSError True m \<Rightarrow>
                  (case resolve_host res domain of
                     Inr addrs \<Rightarrow>
                       (if length addrs > 0
                          then (result\<lparr>MXRecords_d := [\<lparr>Host_rec = domain, Priority = 10\<rparr>],
                                       HasMX_d := True\<rparr>, None)
                        else failed err)
                   | Inl aErr \<Rightarrow> failed err)
              | _ \<Rightarrow> failed err)
         | Inr mxRecords \<Rightarrow>
             (if length mxRecords = 0
                then (result\<lparr>Error_d := Some (NoMXRecords domain)\<rparr>, Some (NoMXRecords domain))
              else (result\<lparr>MXRecords_d :=
                             sort_key Priority
                               (map (\<lambda>mx. \<lparr>Host_rec = TrimSuffix (Host_mx mx) ''.'', Priority = Pref mx\<rparr>)
                                    mxRecords),
                           HasMX_d := True\<rparr>, None)))"

definition GetMXHosts :: "DNSResult \<Rightarrow> string list" where
  "GetMXHosts d = map Host_rec (MXRecords_d d)"

section \<open>The pipeline (Verify)\<close>

record Config =
  CustomHost :: string
  Port_c :: int
  Timeout_c :: int
  FromAddress_c :: string
  HELODomain_c :: string
  SkipSMTP :: bool
  CheckCatchAll :: bool
  SkipTLSVerify_c :: bool
  CheckDisposable :: bool
  CheckRole :: bool
  CheckFreeProvider :: bool

text \<open>
  What one call of \<open>Verify\<close> meets outside the process: the resolver, the mail server, and
  the predicate \<open>classifier.IsDisposable\<close>, whose source file (with its list of domains) is
  not part of the sources at hand and is therefore a parameter.
\<close>

record world =
  resolver :: resolver
  IsDisposable :: "string \<Rightarrow> bool"
  server :: peer

text \<open>Layer 3 of \<open>Verify\<close>: the three classification flags, each under its switch.\<close>

definition classification :: "Config \<Rightarrow> world \<Rightarrow> string \<Rightarrow> string \<Rightarrow> Result \<Rightarrow> Result" where
  "classification cfg w localPart domain result =
     (let result = (if CheckDisposable cfg
                      then result\<lparr>Disposable := IsDisposable w domain\<rparr> else result);
          result = (if CheckRole cfg
                      then result\<lparr>RoleAccount := IsRoleAccount localPart\<rparr> else result);
          result = (if CheckFreeProvider cfg
                      then result\<lparr>FreeProvider := IsFreeProvider domain\<rparr> else result)
      in result)"

text \<open>
  Layer 4 of \<open>Verify\<close>: the choice of the host, the session, and the copy of its verdict
  into the result of the pipeline.
\<close>

definition smtp_verification :: "Config \<Rightarrow> world \<Rightarrow> string \<Rightarrow> Result \<Rightarrow> Result" where
  "smtp_verification cfg w email result =
     (if CustomHost cfg = [] \<and> length (MXRecords result) = 0
        then SetInvalid 0 [] ''No mail server found'' result
      else
        (let smtpHost = (if CustomHost cfg = [] then hd (MXRecords result) else CustomHost cfg);
             smtpConfig = \<lparr> Host = smtpHost, Port = Port_c cfg, Timeout = Timeout_c cfg,
                            FromAddress = FromAddress_c cfg, HELODomain = HELODomain_c cfg,
                            ForceTLS = False, SkipTLSVerify = SkipTLSVerify_c cfg \<rparr>
         in case VerifyEmail smtpConfig email (CheckCatchAll cfg) (server w) of
              ((smtpResult, Some err), smtp) \<Rightarrow> SetError err result
            | ((smtpResult, None), smtp) \<Rightarrow>
                (let result = result\<lparr>Valid := Valid smtpResult, Status := Status smtpResult,
                                     StatusCode := StatusCode smtpResult,
                                     SMTPResponse := SMTPResponse smtpResult,
                                     Reason := Reason smtpResult,
                                     CatchAll := CatchAll smtpResult,
                                     CatchAllChecked := CatchAllChecked smtpResult,
                                     TLSUsed := TLSUsed smtpResult,
                                     SMTPSuccess := SMTPSuccess smtpResult\<rparr>
                 in result\<lparr>ConfidenceScore := calculateConfidence result\<rparr>)))"

text \<open>
  \<open>Verify\<close>. \<open>SuggestTypoFix\<close> only writes to the log and is left out.
\<close>

definition Verify :: "Config \<Rightarrow> world \<Rightarrow> string \<Rightarrow> Result" where
  "Verify cfg w email =
     (let result = NewResult email in
      case ValidateSyntax email of
        (localPart, domain, valid) \<Rightarrow>
      (let result = result\<lparr>SyntaxValid := valid, LocalPart := localPart, Domain_part := domain\<rparr> in
       if \<not> valid then SetInvalid 0 [] ''Invalid email syntax'' result
       else (case LookupMX (resolver w) domain (Timeout_c cfg) of
               (dnsResult, Some err) \<Rightarrow>
                 SetInvalid 0 [] (''Domain error: '' @ lookup_error_string err) result
             | (dnsResult, None) \<Rightarrow>
      (let result = result\<lparr>HasMX := HasMX_d dnsResult, MXRecords := GetMXHosts dnsResult\<rparr>;
           result = (if length (MXRecords result) > 0
                       then result\<lparr>MXHost := hd (MXRecords result)\<rparr> else result);
           result = classification cfg w localPart domain result
       in if SkipSMTP cfg then
            (let result = SetUnknown ''SMTP verification skipped'' result
             in result\<lparr>ConfidenceScore := calculateConfidence result\<rparr>)
          else smtp_verification cfg w email result))))"

section \<open>The worker pool (pool.go)\<close>

text \<open>
  The pool with its counters, and what is outside it: \<open>results\<close> is the result channel
  (everything published so far, oldest first), \<open>worlds k\<close> is what the call number \<open>k\<close> of
  \<open>Verify\<close> meets, and \<open>calls\<close> counts the calls made. Sleeping and the callback are left
  out: no counter and no verdict depends on them. The loop below is a worker that is never
  cancelled, the case of \<open>ProcessEmails\<close>, which closes the job channel and never cancels.
\<close>

record Job =
  Email_j :: string
  Index :: int

record Pool =
  workers :: int
  verifier :: Config
  healthEmail :: string
  healthInterval :: int
  processed :: int
  errors :: int
  healthFails :: int
  results :: "Result list"
  worlds :: "nat \<Rightarrow> world"
  calls :: nat

definition pool_Verify :: "Pool \<Rightarrow> string \<Rightarrow> Result \<times> Pool" where
  "pool_Verify p email = (Verify (verifier p) (worlds p (calls p)) email, p\<lparr>calls := calls p + 1\<rparr>)"

definition runHealthCheck :: "Pool \<Rightarrow> bool \<times> Pool" where
  "runHealthCheck p =
     (case pool_Verify p (healthEmail p) of (result, p) \<Rightarrow> (Status result = StatusValid, p))"

text \<open>
  The body of the loop of \<open>worker\<close> for a job that was received; it returns the pool and
  the worker's \<open>localProcessed\<close>. A failed health check ends the turn (\<open>continue\<close>).
\<close>

definition worker_iteration :: "Pool \<Rightarrow> int \<Rightarrow> Job \<Rightarrow> Pool \<times> int" where
  "worker_iteration p localProcessed job =
     (case (if healthEmail p \<noteq> [] \<and> healthInterval p > 0
               \<and> localProcessed > 0 \<and> localProcessed mod healthInterval p = 0
            then runHealthCheck p else (True, p)) of
        (healthy, p) \<Rightarrow>
          (if \<not> healthy then (p\<lparr>healthFails := healthFails p + 1\<rparr>, localProcessed)
           else (case pool_Verify p (Email_j job) of
                   (result, p) \<Rightarrow>
                     (let p = p\<lparr>processed := processed p + 1\<rparr>;
                          p = (if Status result = StatusError then p\<lparr>errors := errors p + 1\<rparr> else p);
                          p = p\<lparr>results := results p @ [result]\<rparr>
                      in (p, localProcessed + 1)))))"

fun worker_loop :: "Pool \<Rightarrow> int \<Rightarrow> Job list \<Rightarrow> Pool" where
  "worker_loop p localProcessed [] = p"
| "worker_loop p localProcessed (job # jobs) =
     (case worker_iteration p localProcessed job of
        (p, localProcessed) \<Rightarrow> worker_loop p localProcessed jobs)"

definition worker :: "Pool \<Rightarrow> Job list \<Rightarrow> Pool" where
  "worker p jobs = worker_loop p 0 jobs"

text \<open>
  \<open>ProcessEmails\<close>: the collector stores each result that arrives under its address, and
  the last loop walks the input and takes what the map holds. \<open>ProcessEmails\<close> below is the
  run of a pool of one worker; \<open>collector\<close> and \<open>order_results\<close> are the two loops for any
  sequence of arrivals, whatever number of workers produced it.
\<close>

definition collector :: "Result list \<Rightarrow> (string \<rightharpoonup> Result)" where
  "collector arrivals = fold (\<lambda>result resultMap. resultMap(Email result \<mapsto> result)) arrivals Map.empty"

definition order_results :: "string list \<Rightarrow> (string \<rightharpoonup> Result) \<Rightarrow> Result list" where
  "order_results emails resultMap =
     fold (\<lambda>email results. case resultMap email of Some result \<Rightarrow> results @ [result] | None \<Rightarrow> results)
          emails []"

definition submit_all :: "string list \<Rightarrow> Job list" where
  "submit_all emails = map (\<lambda>(i, email). \<lparr>Email_j = email, Index = int i\<rparr>) (enumerate 0 emails)"

definition ProcessEmails :: "Pool \<Rightarrow> string list \<Rightarrow> Result list \<times> Pool" where
  "ProcessEmails p emails =
     (let p = worker p (submit_all emails)
      in (order_results emails (collector (results p)), p))"

section \<open>Concrete scenarios\<close>

text \<open>A resolver for a domain without mail exchangers that has an address record.\<close>

definition resolver_no_mx :: resolver where
  "resolver_no_mx = \<lparr> resolve_mx = (\<lambda>d. Inl (DNSError True ''no such host'')),
                       resolve_host = (\<lambda>d. Inr [''192.0.2.1'']) \<rparr>"

text \<open>A resolver whose queries time out, and one that answers with no record at all.\<close>

definition resolver_timeout :: resolver where
  "resolver_timeout = \<lparr> resolve_mx = (\<lambda>d. Inl (DNSError False ''i/o timeout'')),
                        resolve_host = (\<lambda>d. Inl (DNSError False ''i/o timeout'')) \<rparr>"

definition resolver_empty :: resolver where
  "resolver_empty = \<lparr> resolve_mx = (\<lambda>d. Inr []), resolve_host = (\<lambda>d. Inr []) \<rparr>"

text \<open>
  A world whose resolver answers every mail-exchanger query with \<open>mx.example.com\<close> at
  priority 10, whose disposable list holds \<open>tempmail.com\<close> alone and whose mail server
  refuses the connection; and the default configuration with the SMTP layer skipped.
\<close>

definition world_example :: world where
  "world_example =
     \<lparr> resolver = \<lparr> resolve_mx = (\<lambda>d. Inr [\<lparr>Host_mx = ''mx.example.com.'', Pref = 10\<rparr>]),
                     resolve_host = (\<lambda>d. Inr [''192.0.2.25'']) \<rparr>,
       IsDisposable = (\<lambda>d. d = ''tempmail.com''),
       server = \<lparr> dial = Some ''connection refused'', incoming = [], write_errors = [],
                  handshakes = [], draws = [], transcript = [], closed = False \<rparr> \<rparr>"

definition config_skip :: Config where
  "config_skip =
     \<lparr> CustomHost = [], Port_c = 25, Timeout_c = 15, FromAddress_c = ''test@gmail.com'',
       HELODomain_c = ''mail.verification-check.com'', SkipSMTP = True, CheckCatchAll = False,
       SkipTLSVerify_c = True, CheckDisposable = True, CheckRole = True,
       CheckFreeProvider = True \<rparr>"

section \<open>Properties\<close>

subsection \<open>The confidence score\<close>

lemma calculateConfidence_range: "0 \<le> calculateConfidence r \<and> calculateConfidence r \<le> 100"
  by (simp add: calculateConfidence_def Let_def split: Status.split)

lemma calculateConfidence_ignores_score [simp]:
  "calculateConfidence (r\<lparr>ConfidenceScore := x\<rparr>) = calculateConfidence r"
  by (cases "Status r") (simp_all add: calculateConfidence_def Let_def)

lemma calculateConfidence_fields:
  assumes "SyntaxValid r = SyntaxValid r'" "HasMX r = HasMX r'" "Status r = Status r'"
    "StatusCode r = StatusCode r'" "Disposable r = Disposable r'" "CatchAll r = CatchAll r'"
    "RoleAccount r = RoleAccount r'"
  shows "calculateConfidence r = calculateConfidence r'"
  unfolding calculateConfidence_def assms ..

lemma calculateConfidence_unknown_45:
  "SyntaxValid r \<Longrightarrow> HasMX r \<Longrightarrow> Status r = StatusUnknown \<Longrightarrow> \<not> Disposable r
   \<Longrightarrow> \<not> CatchAll r \<Longrightarrow> \<not> RoleAccount r \<Longrightarrow> calculateConfidence r = 45"
  by (simp add: calculateConfidence_def Let_def)

lemma setter_scores [simp]:
  "ConfidenceScore (SetInvalid c resp reason r) = calculateConfidence (SetInvalid c resp reason r)"
  "ConfidenceScore (SetUnknown reason r) = calculateConfidence (SetUnknown reason r)"
  "Status (SetInvalid c resp reason r) = StatusInvalid"
  "Status (SetUnknown reason r) = StatusUnknown"
  by (simp_all add: SetInvalid_def SetUnknown_def Let_def)

subsection \<open>The verdict of a session is never an error verdict unless an error is returned\<close>

lemma interpret_code_status:
  "Status (interpret_code code response r) \<in> {StatusValid, StatusUnknown, StatusInvalid}"
  by (simp add: interpret_code_def SetValid_def SetUnknown_def SetInvalid_def Let_def)

lemma catch_all_detection_status:
  "catch_all_detection cfg cc r s = (r', s') \<Longrightarrow> Status r' = Status r \<or> Status r' = StatusRisky"
  by (auto simp: catch_all_detection_def SetRisky_def Let_def
           split: if_splits prod.splits option.splits)

lemma VerifyEmail_ok_status:
  assumes "VerifyEmail cfg email cc p = ((r, None), s)"
  shows "Status r \<noteq> StatusError"
proof -
  have *: "Status r1 \<noteq> StatusError"
    if a: "catch_all_detection cfg cc (interpret_code c resp r0) smtp = (r1, s1)"
    for c resp r0 smtp r1 s1
    using catch_all_detection_status [OF a] interpret_code_status [of c resp r0] by auto
  from assms show ?thesis
    by (auto simp: VerifyEmail_def Let_def split: prod.splits option.splits dest: *)
qed

subsection \<open>The pipeline\<close>

lemma classification_fields [simp]:
  "Status (classification cfg w l d r) = Status r"
  "SyntaxValid (classification cfg w l d r) = SyntaxValid r"
  "HasMX (classification cfg w l d r) = HasMX r"
  "MXRecords (classification cfg w l d r) = MXRecords r"
  "LocalPart (classification cfg w l d r) = LocalPart r"
  "Domain_part (classification cfg w l d r) = Domain_part r"
  "CatchAll (classification cfg w l d r) = CatchAll r"
  "CatchAllChecked (classification cfg w l d r) = CatchAllChecked r"
  "StatusCode (classification cfg w l d r) = StatusCode r"
  "Disposable (classification cfg w l d r)
     = (if CheckDisposable cfg then IsDisposable w d else Disposable r)"
  "RoleAccount (classification cfg w l d r)
     = (if CheckRole cfg then IsRoleAccount l else RoleAccount r)"
  by (simp_all add: classification_def Let_def)

text \<open>Layer 4 written out on what the session returned.\<close>

lemma smtp_verification_unfold:
  assumes "\<not> (CustomHost cfg = [] \<and> length (MXRecords r) = 0)"
    and "VerifyEmail \<lparr> Host = (if CustomHost cfg = [] then hd (MXRecords r) else CustomHost cfg),
              Port = Port_c cfg, Timeout = Timeout_c cfg, FromAddress = FromAddress_c cfg,
              HELODomain = HELODomain_c cfg, ForceTLS = False,
              SkipTLSVerify = SkipTLSVerify_c cfg \<rparr>
            email (CheckCatchAll cfg) (server w) = ((sr, err), smtp)"
  shows "smtp_verification cfg w email r =
      (case err of
         Some e \<Rightarrow> SetError e r
       | None \<Rightarrow>
           (let result = r\<lparr>Valid := Valid sr, Status := Status sr, StatusCode := StatusCode sr,
                             SMTPResponse := SMTPResponse sr, Reason := Reason sr,
                             CatchAll := CatchAll sr, CatchAllChecked := CatchAllChecked sr,
                             TLSUsed := TLSUsed sr, SMTPSuccess := SMTPSuccess sr\<rparr>
            in result\<lparr>ConfidenceScore := calculateConfidence result\<rparr>))"
  using assms unfolding smtp_verification_def Let_def
  by (auto split: option.split)

lemma smtp_verification_score:
  "ConfidenceScore (smtp_verification cfg w email r) =
     (if Status (smtp_verification cfg w email r) = StatusError then 0
      else calculateConfidence (smtp_verification cfg w email r))"
proof (cases "CustomHost cfg = [] \<and> length (MXRecords r) = 0")
  case True
  then show ?thesis by (simp add: smtp_verification_def)
next
  case False
  define sc where "sc = \<lparr> Host = (if CustomHost cfg = [] then hd (MXRecords r) else CustomHost cfg),
       Port = Port_c cfg, Timeout = Timeout_c cfg,
       FromAddress = FromAddress_c cfg, HELODomain = HELODomain_c cfg,
       ForceTLS = False, SkipTLSVerify = SkipTLSVerify_c cfg \<rparr>"
  obtain sr err smtp where ve: "VerifyEmail sc email (CheckCatchAll cfg) (server w) = ((sr, err), smtp)"
    by (cases "VerifyEmail sc email (CheckCatchAll cfg) (server w)") auto
  note unf = smtp_verification_unfold [OF False ve [unfolded sc_def]]
  show ?thesis
  proof (cases err)
    case None
    with ve have "Status sr \<noteq> StatusError" using VerifyEmail_ok_status by blast
    with None show ?thesis unfolding unf by (simp add: Let_def)
  next
    case (Some x)
    then show ?thesis unfolding unf by (simp add: SetError_def)
  qed
qed

lemma Verify_score:
  "ConfidenceScore (Verify cfg w email) =
     (if Status (Verify cfg w email) = StatusError then 0
      else calculateConfidence (Verify cfg w email))"
  by (simp add: Verify_def Let_def smtp_verification_score split: prod.split option.split)

text \<open>The verdict of the pipeline when the SMTP layer is skipped.\<close>

lemma Verify_skip_value:
  assumes "ValidateSyntax email = (lp, dm, True)" and "SkipSMTP cfg"
    and "LookupMX (resolver w) dm (Timeout_c cfg) = (d, None)"
    and "GetMXHosts d = h # hs"
  shows "Verify cfg w email =
     (let result = SetUnknown ''SMTP verification skipped''
         (classification cfg w lp dm
           (NewResult email
              \<lparr>SyntaxValid := True, LocalPart := lp, Domain_part := dm,
                HasMX := HasMX_d d, MXRecords := h # hs, MXHost := h\<rparr>))
      in result\<lparr>ConfidenceScore := calculateConfidence result\<rparr>)"
  using assms by (simp add: Verify_def Let_def)

lemma ValidateSyntax_example:
  "ValidateSyntax ''  User@Example.Com  '' = (''user'', ''example.com'', True)"
  by code_simp

lemma ValidateSyntax_example_upper:
  "ValidateSyntax ''USER@EXAMPLE.COM'' = (''user'', ''example.com'', True)"
  by code_simp

lemma IsRoleAccount_user: "IsRoleAccount ''user'' = False"
  by code_simp

lemma TrimSuffix_mx:
  "TrimSuffix ''mx.example.com.'' ''.'' = ''mx.example.com''"
  "TrimSuffix ''mx.example.com'' ''.'' = ''mx.example.com''"
  by code_simp+

lemma LookupMX_single:
  assumes "resolve_mx res domain = Inr [\<lparr>Host_mx = h, Pref = p\<rparr>]"
  obtains d where "LookupMX res domain t = (d, None)" "HasMX_d d"
    "GetMXHosts d = [TrimSuffix h ''.'']"
proof -
  have "snd (LookupMX res domain t) = None" "HasMX_d (fst (LookupMX res domain t))"
    "GetMXHosts (fst (LookupMX res domain t)) = [TrimSuffix h ''.'']"
    by (simp_all add: LookupMX_def GetMXHosts_def assms)
  then show ?thesis
    using that by (cases "LookupMX res domain t") auto
qed

lemma Verify_skip_example_fields:
  assumes vs: "ValidateSyntax email = (''user'', ''example.com'', True)"
    and skip: "SkipSMTP cfg"
    and mx: "resolve_mx (resolver w) ''example.com'' = Inr [\<lparr>Host_mx = h, Pref = 10\<rparr>]"
    and h: "h = ''mx.example.com'' \<or> h = ''mx.example.com.''"
    and disp: "CheckDisposable cfg \<longrightarrow> \<not> IsDisposable w ''example.com''"
  shows "Status (Verify cfg w email) = StatusUnknown"
    and "SyntaxValid (Verify cfg w email)"
    and "LocalPart (Verify cfg w email) = ''user''"
    and "Domain_part (Verify cfg w email) = ''example.com''"
    and "MXRecords (Verify cfg w email) = [''mx.example.com'']"
    and "HasMX (Verify cfg w email)"
    and "StatusCode (Verify cfg w email) = 0"
    and "\<not> Disposable (Verify cfg w email)"
    and "\<not> CatchAll (Verify cfg w email)"
    and "\<not> RoleAccount (Verify cfg w email)"
    and "ConfidenceScore (Verify cfg w email) = 45"
proof -
  have t: "TrimSuffix h ''.'' = ''mx.example.com''"
    using h TrimSuffix_mx by blast
  obtain d where d: "LookupMX (resolver w) ''example.com'' (Timeout_c cfg) = (d, None)"
    "HasMX_d d" "GetMXHosts d = [''mx.example.com'']"
    using LookupMX_single [OF mx] t by metis
  note V = Verify_skip_value [OF vs skip d(1) d(3)]
  show "Status (Verify cfg w email) = StatusUnknown"
    and "SyntaxValid (Verify cfg w email)"
    and "LocalPart (Verify cfg w email) = ''user''"
    and "Domain_part (Verify cfg w email) = ''example.com''"
    and "MXRecords (Verify cfg w email) = [''mx.example.com'']"
    and "HasMX (Verify cfg w email)"
    and "StatusCode (Verify cfg w email) = 0"
    and "\<not> Disposable (Verify cfg w email)"
    and "\<not> CatchAll (Verify cfg w email)"
    and "\<not> RoleAccount (Verify cfg w email)"
    unfolding V using disp d(2)
    by (simp_all add: SetUnknown_def Let_def NewResult_def IsRoleAccount_user)
  show "ConfidenceScore (Verify cfg w email) = 45"
    unfolding V using disp d(2)
    by (simp add: Let_def, intro calculateConfidence_unknown_45)
       (simp_all add: SetUnknown_def Let_def IsRoleAccount_user NewResult_def)
qed

text \<open>
  Claim C2. The confidence score of every verdict of \<open>Verify\<close> lies between 0 and 100, and
  two verdicts that agree on the syntax flag, the MX flag, the status, the status code and
  the disposable, catch-all and role flags have the same score (it is 0 for an error
  verdict and \<open>calculateConfidence\<close> of the verdict otherwise).
\<close>

theorem Verify_confidence:
  "0 \<le> ConfidenceScore (Verify cfg w email) \<and> ConfidenceScore (Verify cfg w email) \<le> 100
   \<and> (SyntaxValid (Verify cfg w email) = SyntaxValid (Verify cfg' w' email')
        \<and> HasMX (Verify cfg w email) = HasMX (Verify cfg' w' email')
        \<and> Status (Verify cfg w email) = Status (Verify cfg' w' email')
        \<and> StatusCode (Verify cfg w email) = StatusCode (Verify cfg' w' email')
        \<and> Disposable (Verify cfg w email) = Disposable (Verify cfg' w' email')
        \<and> CatchAll (Verify cfg w email) = CatchAll (Verify cfg' w' email')
        \<and> RoleAccount (Verify cfg w email) = RoleAccount (Verify cfg' w' email')
      \<longrightarrow> ConfidenceScore (Verify cfg w email) = ConfidenceScore (Verify cfg' w' email'))"
proof -
  have "0 \<le> ConfidenceScore (Verify cfg w email) \<and> ConfidenceScore (Verify cfg w email) \<le> 100"
    using calculateConfidence_range [of "Verify cfg w email"]
    by (simp add: Verify_score)
  moreover have "ConfidenceScore (Verify cfg w email) = ConfidenceScore (Verify cfg' w' email')"
    if "SyntaxValid (Verify cfg w email) = SyntaxValid (Verify cfg' w' email')"
      "HasMX (Verify cfg w email) = HasMX (Verify cfg' w' email')"
      "Status (Verify cfg w email) = Status (Verify cfg' w' email')"
      "StatusCode (Verify cfg w email) = StatusCode (Verify cfg' w' email')"
      "Disposable (Verify cfg w email) = Disposable (Verify cfg' w' email')"
      "CatchAll (Verify cfg w email) = CatchAll (Verify cfg' w' email')"
      "RoleAccount (Verify cfg w email) = RoleAccount (Verify cfg' w' email')"
    using calculateConfidence_fields [OF that] that(3)
    by (simp add: Verify_score [of cfg] Verify_score [of cfg'])
  ultimately show ?thesis by blast
qed

theorem Verify_confidence_witness:
  "0 \<le> ConfidenceScore (Verify config_skip world_example ''  User@Example.Com  '')
   \<and> ConfidenceScore (Verify config_skip world_example ''  User@Example.Com  '') \<le> 100
   \<and> ConfidenceScore (Verify config_skip world_example ''  User@Example.Com  '')
     = ConfidenceScore (Verify (config_skip\<lparr>CheckRole := False\<rparr>) world_example ''USER@EXAMPLE.COM'')"
proof -
  have mx: "resolve_mx (resolver world_example) ''example.com''
              = Inr [\<lparr>Host_mx = ''mx.example.com.'', Pref = 10\<rparr>]"
    and disp: "\<not> IsDisposable world_example ''example.com''"
    by (simp_all add: world_example_def)
  have skip: "SkipSMTP config_skip" "SkipSMTP (config_skip\<lparr>CheckRole := False\<rparr>)"
    by (simp_all add: config_skip_def)
  note a = Verify_skip_example_fields [OF ValidateSyntax_example skip(1) mx _ impI [OF disp], simplified]
  note b = Verify_skip_example_fields [OF ValidateSyntax_example_upper skip(2) mx _ impI [OF disp], simplified]
  show ?thesis
    using Verify_confidence [of config_skip world_example "''  User@Example.Com  ''"
            "config_skip\<lparr>CheckRole := False\<rparr>" world_example "''USER@EXAMPLE.COM''"]
    by (simp add: a(1-10) b(1-10))
qed

text \<open>
  Claim C6. With the SMTP layer skipped and a resolver that answers \<open>example.com\<close> with the
  single mail exchanger \<open>mx.example.com\<close> (with or without the final dot) at priority 10,
  the input \<open>"  User@Example.Com  "\<close> gets the verdict unknown with syntax valid, local part
  \<open>user\<close>, domain \<open>example.com\<close>, MX records \<open>[mx.example.com]\<close> and confidence 45. The
  disposable list is not part of the sources at hand: the score is 45 when \<open>example.com\<close>
  is not on it (or the disposable check is off).
\<close>

theorem Verify_skip_smtp_example:
  assumes "SkipSMTP cfg"
    and "resolve_mx (resolver w) ''example.com'' = Inr [\<lparr>Host_mx = h, Pref = 10\<rparr>]"
    and "h = ''mx.example.com'' \<or> h = ''mx.example.com.''"
    and "CheckDisposable cfg \<longrightarrow> \<not> IsDisposable w ''example.com''"
  shows "Status (Verify cfg w ''  User@Example.Com  '') = StatusUnknown
       \<and> SyntaxValid (Verify cfg w ''  User@Example.Com  '')
       \<and> LocalPart (Verify cfg w ''  User@Example.Com  '') = ''user''
       \<and> Domain_part (Verify cfg w ''  User@Example.Com  '') = ''example.com''
       \<and> MXRecords (Verify cfg w ''  User@Example.Com  '') = [''mx.example.com'']
       \<and> ConfidenceScore (Verify cfg w ''  User@Example.Com  '') = 45"
  using Verify_skip_example_fields [OF ValidateSyntax_example assms] by blast

theorem Verify_skip_smtp_example_witness:
  "SkipSMTP config_skip
   \<and> Status (Verify config_skip world_example ''  User@Example.Com  '') = StatusUnknown
   \<and> SyntaxValid (Verify config_skip world_example ''  User@Example.Com  '')
   \<and> LocalPart (Verify config_skip world_example ''  User@Example.Com  '') = ''user''
   \<and> Domain_part (Verify config_skip world_example ''  User@Example.Com  '') = ''example.com''
   \<and> MXRecords (Verify config_skip world_example ''  User@Example.Com  '') = [''mx.example.com'']
   \<and> ConfidenceScore (Verify config_skip world_example ''  User@Example.Com  '') = 45"
proof -
  have mx: "resolve_mx (resolver world_example) ''example.com''
              = Inr [\<lparr>Host_mx = ''mx.example.com.'', Pref = 10\<rparr>]"
    and disp: "CheckDisposable config_skip \<longrightarrow> \<not> IsDisposable world_example ''example.com''"
    and skip: "SkipSMTP config_skip"
    by (simp_all add: world_example_def config_skip_def)
  show ?thesis
    using Verify_skip_smtp_example [OF skip mx _ disp] skip by simp
qed

subsection \<open>Directory lookup\<close>

text \<open>
  Claim C7. When the mail-exchanger query fails with a \<open>DNSError\<close> whose \<open>IsNotFound\<close> flag
  is set and the address query returns at least one address, \<open>LookupMX\<close> returns without
  error the single record made of the domain itself with priority 10, with \<open>HasMX\<close> set.
  Every other failure of the mail-exchanger query returns the error \<open>MX lookup failed\<close>, and
  an empty answer returns the error \<open>no MX records found\<close>; in both cases no record is
  returned and \<open>HasMX\<close> is not set.
\<close>

theorem LookupMX_fallback:
  "(resolve_mx res domain = Inl (DNSError True m)
      \<and> (\<exists>addrs. resolve_host res domain = Inr addrs \<and> addrs \<noteq> [])
    \<longrightarrow> snd (LookupMX res domain t) = None
        \<and> MXRecords_d (fst (LookupMX res domain t)) = [\<lparr>Host_rec = domain, Priority = 10\<rparr>]
        \<and> HasMX_d (fst (LookupMX res domain t))
        \<and> Error_d (fst (LookupMX res domain t)) = None)
   \<and> (resolve_mx res domain = Inl err
      \<and> \<not> ((\<exists>m. err = DNSError True m) \<and> (\<exists>addrs. resolve_host res domain = Inr addrs \<and> addrs \<noteq> []))
    \<longrightarrow> snd (LookupMX res domain t) = Some (MXLookupFailed err)
        \<and> Error_d (fst (LookupMX res domain t)) = Some (MXLookupFailed err)
        \<and> MXRecords_d (fst (LookupMX res domain t)) = []
        \<and> \<not> HasMX_d (fst (LookupMX res domain t)))
   \<and> (resolve_mx res domain = Inr []
    \<longrightarrow> snd (LookupMX res domain t) = Some (NoMXRecords domain)
        \<and> Error_d (fst (LookupMX res domain t)) = Some (NoMXRecords domain)
        \<and> MXRecords_d (fst (LookupMX res domain t)) = []
        \<and> \<not> HasMX_d (fst (LookupMX res domain t)))"
  by (auto simp: LookupMX_def Let_def split: sum.splits dns_error.splits bool.splits)

theorem LookupMX_fallback_witness:
  "(snd (LookupMX resolver_no_mx ''example.org'' 15) = None
    \<and> MXRecords_d (fst (LookupMX resolver_no_mx ''example.org'' 15))
        = [\<lparr>Host_rec = ''example.org'', Priority = 10\<rparr>]
    \<and> HasMX_d (fst (LookupMX resolver_no_mx ''example.org'' 15)))
   \<and> snd (LookupMX resolver_timeout ''example.org'' 15)
       = Some (MXLookupFailed (DNSError False ''i/o timeout''))
   \<and> snd (LookupMX resolver_empty ''example.org'' 15) = Some (NoMXRecords ''example.org'')"
  using LookupMX_fallback [of resolver_no_mx "''example.org''" "''no such host''" 15]
        LookupMX_fallback [of resolver_timeout "''example.org''" _ 15 "DNSError False ''i/o timeout''"]
        LookupMX_fallback [of resolver_empty "''example.org''" _ 15]
  by (simp add: resolver_no_mx_def resolver_timeout_def resolver_empty_def)

end
